theory Spec2Isabelle
  imports Main
begin

section \<open>scripts/translate.py\<close>

text \<open>
  The script under verification, in full:
  \<^verbatim>\<open>
  import sys
  from googletrans import Translator

  text = sys.argv[1]
  lang = sys.argv[2]
  translator = Translator()
  print(translator.translate(text, dest=lang).text)
  \<close>
  It is embedded as a straight-line program in a monad of state and exceptions. What lies
  outside the repository is a parameter of the model: the package \<open>googletrans\<close> (its
  import, the constructor of its class, the \<open>translate\<close> method) and the standard output
  stream of the host (its codec, its device, the flush at exit).
\<close>

subsection \<open>Strings, exceptions, events and the process state\<close>

text \<open>
  A Python \<open>str\<close> is a sequence of Unicode code points; what a stream delivers is a
  sequence of bytes. The script never looks inside a string.
\<close>

type_synonym str = "nat list"
type_synonym bytes = "nat list"

text \<open>
  Four kinds of exception can reach the top level: the \<open>IndexError\<close> of a list subscript
  out of range, and whatever the import on line 2, the translation client, or a write to
  standard output raises; these are of a type \<open>'e\<close> that the script never inspects.
\<close>

datatype 'e exn = IndexError | ImportFailure 'e | ClientError 'e | StdoutError 'e

text \<open>
  The events of a process are the calls the script itself issues to the outside: the
  invocation of the client's \<open>translate\<close> method with a text and a destination language
  (the only place where the script hands anything to the translation service), and the
  invocation of \<open>sys.stdout.write\<close> with a string. A call is recorded when it is issued,
  whatever comes of it.
\<close>

datatype event = ClientCall str str | StdoutWrite str

text \<open>The persistent store of the host, which outlives the process.\<close>

record persistent =
  files :: "string \<rightharpoonup> string"
  environ :: "string \<rightharpoonup> string"

text \<open>
  The state of a process: the store, the events so far, and the bytes that standard output
  has taken so far.
\<close>

record proc =
  store :: persistent
  events :: "event list"
  sent :: bytes

type_synonym ('e, 'a) py = "proc \<Rightarrow> ('e exn + 'a) \<times> proc"

definition py_return :: "'a \<Rightarrow> ('e, 'a) py" where
  "py_return x = (\<lambda>s. (Inr x, s))"

definition py_raise :: "'e exn \<Rightarrow> ('e, 'a) py" where
  "py_raise e = (\<lambda>s. (Inl e, s))"

text \<open>Sequencing: an exception of the first statement skips the rest.\<close>

definition py_bind :: "('e, 'a) py \<Rightarrow> ('a \<Rightarrow> ('e, 'b) py) \<Rightarrow> ('e, 'b) py" where
  "py_bind m k = (\<lambda>s. case m s of (Inl e, s') \<Rightarrow> (Inl e, s') | (Inr x, s') \<Rightarrow> k x s')"

subsection \<open>The client library\<close>

text \<open>
  The package \<open>googletrans\<close> is not part of the repository, so the script is verified
  for every behaviour of it. Code of the library runs on the store of the host and may
  change it: it returns a value or raises, and leaves a store.
\<close>

type_synonym ('e, 'a) foreign = "persistent \<Rightarrow> ('e + 'a) \<times> persistent"

text \<open>
  The response of a translation is an object with a \<open>text\<close> attribute holding a string,
  and whatever else (of a type \<open>'r\<close>) the library puts in it. A translator object has one
  method, \<open>translate\<close>. The class \<open>Translator\<close> is what calling it with no argument does.
  The package is what \<open>from googletrans import Translator\<close> does: it runs the package's
  module code, with the interpreter's bytecode cache written to the store as it goes,
  and yields the class or raises.
\<close>

record translated =
  "text" :: str

record ('e, 'r) translator_obj =
  translate :: "str \<Rightarrow> str \<Rightarrow> ('e, 'r translated_scheme) foreign"

type_synonym ('e, 'r) translator_class = "('e, ('e, 'r) translator_obj) foreign"

type_synonym ('e, 'r) googletrans = "('e, ('e, 'r) translator_class) foreign"

text \<open>
  A call into the library from the process: the store is handed over and taken back, an
  exception of the library becomes an exception of the process.
\<close>

definition foreign_call :: "('e \<Rightarrow> 'e exn) \<Rightarrow> ('e, 'a) foreign \<Rightarrow> ('e, 'a) py" where
  "foreign_call tag f =
     (\<lambda>s. case f (store s) of
        (Inl e, h) \<Rightarrow> (Inl (tag e), s\<lparr>store := h\<rparr>)
      | (Inr x, h) \<Rightarrow> (Inr x, s\<lparr>store := h\<rparr>))"

subsection \<open>The standard output stream\<close>

text \<open>
  \<open>sys.stdout\<close> is a buffered text stream of the host. Its \<open>encode\<close> turns a string
  into bytes with the stream's encoding, error handler and newline translation, or
  raises (\<open>UnicodeEncodeError\<close>). Its \<open>device\<close> takes the bytes, given those the stream
  has taken already, or raises (\<open>OSError\<close>) having taken only some first bytes of them.
  Its \<open>exit_flush\<close> is the flush that the interpreter performs at exit, given the bytes
  the stream has taken: it succeeds, and they are all delivered, or it fails with only
  some first bytes of them delivered.
\<close>

record 'e stream =
  encode :: "str \<Rightarrow> 'e + bytes"
  device :: "bytes \<Rightarrow> bytes \<Rightarrow> ('e \<times> nat) option"
  exit_flush :: "bytes \<Rightarrow> nat option"

text \<open>
  One \<open>write\<close> on a stream that has taken \<open>held\<close>: what it has taken afterwards, with
  the exception if it raises.
\<close>

definition write_outcome :: "'e stream \<Rightarrow> bytes \<Rightarrow> str \<Rightarrow> ('e \<times> bytes) + bytes" where
  "write_outcome out held x =
     (case encode out x of
        Inl e \<Rightarrow> Inl (e, held)
      | Inr b \<Rightarrow>
          (case device out held b of
             Some (e, n) \<Rightarrow> Inl (e, held @ take n b)
           | None \<Rightarrow> Inr (held @ b)))"

text \<open>What has been delivered once the process has exited, of the bytes the stream took.\<close>

definition delivered :: "'e stream \<Rightarrow> bytes \<Rightarrow> bytes" where
  "delivered out held = (case exit_flush out held of None \<Rightarrow> held | Some n \<Rightarrow> take n held)"

subsection \<open>The statements of the script\<close>

text \<open>
  Line 2, \<open>from googletrans import Translator\<close>: runs before anything is read from
  \<open>sys.argv\<close>. (Line 1 imports the built-in module \<open>sys\<close>, whose \<open>argv\<close> is a parameter
  of the script.)
\<close>

definition import_Translator :: "('e, 'r) googletrans \<Rightarrow> ('e, ('e, 'r) translator_class) py" where
  "import_Translator googletrans = foreign_call ImportFailure googletrans"

text \<open>
  \<open>sys.argv[i]\<close> for a literal index \<open>i \<ge> 0\<close>: the element, or \<open>IndexError\<close> when the list
  is too short. \<open>sys.argv[0]\<close> is the name of the script, so the positional arguments
  are \<open>sys.argv[1]\<close>, \<open>sys.argv[2]\<close>, ...
\<close>

definition argv_index :: "str list \<Rightarrow> nat \<Rightarrow> ('e, str) py" where
  "argv_index argv i = (if i < length argv then py_return (argv ! i) else py_raise IndexError)"

text \<open>\<open>Translator()\<close>: no event; an exception of the constructor propagates.\<close>

definition new_Translator :: "('e, 'r) translator_class \<Rightarrow> ('e, ('e, 'r) translator_obj) py" where
  "new_Translator Translator = foreign_call ClientError Translator"

text \<open>
  \<open>translator.translate(text, dest=lang)\<close>: the call is recorded with the arguments it
  receives, then the client runs on them: its answer is returned or its exception raised.
\<close>

definition call_translate ::
  "('e, 'r) translator_obj \<Rightarrow> str \<Rightarrow> str \<Rightarrow> ('e, 'r translated_scheme) py" where
  "call_translate translator txt dest =
     (\<lambda>s. foreign_call ClientError (translate translator txt dest)
            (s\<lparr>events := events s @ [ClientCall txt dest]\<rparr>))"

text \<open>\<open>sys.stdout.write(x)\<close>: the call is recorded, then the stream takes the string or raises.\<close>

definition stdout_write :: "'e stream \<Rightarrow> str \<Rightarrow> ('e, unit) py" where
  "stdout_write out x =
     (\<lambda>s. let s' = s\<lparr>events := events s @ [StdoutWrite x]\<rparr>
          in case write_outcome out (sent s) x of
               Inl (e, held) \<Rightarrow> (Inl (StdoutError e), s'\<lparr>sent := held\<rparr>)
             | Inr held \<Rightarrow> (Inr (), s'\<lparr>sent := held\<rparr>))"

text \<open>The line terminator of \<open>print\<close>, \<open>end='\n'\<close>.\<close>

definition newline :: str where
  "newline = [10]"

text \<open>
  \<open>print(x)\<close> for a string \<open>x\<close>: two writes on \<open>sys.stdout\<close>, the string, then the line
  terminator; no flush.
\<close>

definition py_print :: "'e stream \<Rightarrow> str \<Rightarrow> ('e, unit) py" where
  "py_print out x = py_bind (stdout_write out x) (\<lambda>u. stdout_write out newline)"

text \<open>The module body, statement by statement.\<close>

definition script :: "('e, 'r) googletrans \<Rightarrow> 'e stream \<Rightarrow> str list \<Rightarrow> ('e, unit) py" where
  "script googletrans out argv =
     py_bind (import_Translator googletrans) (\<lambda>Translator.
     py_bind (argv_index argv 1) (\<lambda>text.
     py_bind (argv_index argv 2) (\<lambda>lang.
     py_bind (new_Translator Translator) (\<lambda>translator.
     py_bind (call_translate translator text lang) (\<lambda>response.
     py_print out (translated.text response))))))"

subsection \<open>Running the script as a process\<close>

text \<open>
  A process starts on the host's persistent store with no event yet and nothing on
  standard output. At exit the interpreter flushes standard output. The exit status is
  120 when that flush fails; otherwise 0 when the module body completed and 1 when an
  exception reached the top level.
\<close>

record 'e outcome =
  uncaught :: "'e exn option"
  final :: proc
  flush :: "nat option"

definition run ::
  "('e, 'r) googletrans \<Rightarrow> 'e stream \<Rightarrow> str list \<Rightarrow> persistent \<Rightarrow> 'e outcome" where
  "run googletrans out argv host =
     (case script googletrans out argv \<lparr>store = host, events = [], sent = []\<rparr> of
        (Inl e, s) \<Rightarrow> \<lparr>uncaught = Some e, final = s, flush = exit_flush out (sent s)\<rparr>
      | (Inr u, s) \<Rightarrow> \<lparr>uncaught = None, final = s, flush = exit_flush out (sent s)\<rparr>)"

definition exit_status :: "'e outcome \<Rightarrow> nat" where
  "exit_status res =
     (case flush res of
        Some n \<Rightarrow> 120
      | None \<Rightarrow> (case uncaught res of None \<Rightarrow> 0 | Some e \<Rightarrow> 1))"

definition trace :: "'e outcome \<Rightarrow> event list" where
  "trace res = events (final res)"

text \<open>
  What standard output holds once the process has exited: all that the stream took, or
  the first bytes of it if the flush at exit failed.
\<close>

definition stdout :: "'e outcome \<Rightarrow> bytes" where
  "stdout res = (case flush res of None \<Rightarrow> sent (final res) | Some n \<Rightarrow> take n (sent (final res)))"

text \<open>The calls made to the client, in order, each with its text and destination.\<close>

fun client_calls :: "event list \<Rightarrow> (str \<times> str) list" where
  "client_calls [] = []"
| "client_calls (ClientCall t d # es) = (t, d) # client_calls es"
| "client_calls (StdoutWrite x # es) = client_calls es"

text \<open>The strings handed to \<open>sys.stdout.write\<close>, in order.\<close>

fun stdout_writes :: "event list \<Rightarrow> str list" where
  "stdout_writes [] = []"
| "stdout_writes (StdoutWrite x # es) = x # stdout_writes es"
| "stdout_writes (ClientCall t d # es) = stdout_writes es"

text \<open>
  The shape of a trace in which the client is called at most once and standard output is
  written only after the call, by one \<open>print\<close>: its string, then the line terminator
  and nothing else.
\<close>

fun call_then_print :: "event list \<Rightarrow> bool" where
  "call_then_print [] = True"
| "call_then_print [ClientCall t d] = True"
| "call_then_print [ClientCall t d, StdoutWrite x] = True"
| "call_then_print [ClientCall t d, StdoutWrite x, StdoutWrite y] = (y = newline)"
| "call_then_print es = False"


subsection \<open>Concrete libraries, streams and hosts, for evaluating runs\<close>

text \<open>The code points of an ASCII literal.\<close>

definition ascii :: "string \<Rightarrow> str" where
  "ascii s = map of_char s"

text \<open>
  A translator that knows Spanish and French only, and of those only the word hello
  (anything else comes back as it went), and raises \<open>ValueError\<close> for any other
  destination; its responses also carry the destination language. It leaves the store
  alone.
\<close>

definition demo_translator :: "(string, string) translator_obj" where
  "demo_translator =
     \<lparr>translate = (\<lambda>txt dest h.
        if dest = ascii ''es''
        then (Inr \<lparr>text = (if txt = ascii ''hello'' then ascii ''hola'' else txt),
                   \<dots> = ''es''\<rparr>, h)
        else if dest = ascii ''fr''
        then (Inr \<lparr>text = (if txt = ascii ''hello'' then ascii ''bonjour'' else txt),
                   \<dots> = ''fr''\<rparr>, h)
        else (Inl ''ValueError'', h))\<rparr>"

definition demo_class :: "(string, string) translator_class" where
  "demo_class = (\<lambda>h. (Inr demo_translator, h))"

text \<open>An installed package: importing it leaves a bytecode cache file in the store.\<close>

definition demo_googletrans :: "(string, string) googletrans" where
  "demo_googletrans =
     (\<lambda>h. (Inr demo_class,
           h\<lparr>files := (files h)(''googletrans/__pycache__/client.pyc'' \<mapsto> ''bytecode'')\<rparr>))"

text \<open>A package whose import fails (for want of a dependency, say).\<close>

definition broken_googletrans :: "(string, string) googletrans" where
  "broken_googletrans = (\<lambda>h. (Inl ''ImportError'', h))"

text \<open>A host with no file and no environment variable.\<close>

definition bare_host :: persistent where
  "bare_host = \<lparr>files = Map.empty, environ = Map.empty\<rparr>"

text \<open>
  The UTF-8 encoding of a code point; surrogates (which \<open>sys.argv\<close> uses for the bytes
  of an argument that are not valid in the locale's encoding) have none.
\<close>

definition utf8_char :: "nat \<Rightarrow> bytes option" where
  "utf8_char c =
     (if c < 0x80 then Some [c]
      else if c < 0x800 then Some [0xC0 + c div 0x40, 0x80 + c mod 0x40]
      else if 0xD800 \<le> c \<and> c < 0xE000 then None
      else if c < 0x10000
        then Some [0xE0 + c div 0x1000, 0x80 + (c div 0x40) mod 0x40, 0x80 + c mod 0x40]
      else if c < 0x110000
        then Some [0xF0 + c div 0x40000, 0x80 + (c div 0x1000) mod 0x40,
                   0x80 + (c div 0x40) mod 0x40, 0x80 + c mod 0x40]
      else None)"

fun utf8 :: "str \<Rightarrow> bytes option" where
  "utf8 [] = Some []"
| "utf8 (c # cs) =
     (case utf8_char c of
        None \<Rightarrow> None
      | Some b \<Rightarrow> (case utf8 cs of None \<Rightarrow> None | Some bs \<Rightarrow> Some (b @ bs)))"

fun latin1 :: "str \<Rightarrow> bytes option" where
  "latin1 [] = Some []"
| "latin1 (c # cs) =
     (if c < 0x100 then (case latin1 cs of None \<Rightarrow> None | Some bs \<Rightarrow> Some (c # bs))
      else None)"

text \<open>
  A terminal in a UTF-8 locale, one in a Latin-1 locale, a file on a full disk, and a pipe
  whose reader has gone by the time the interpreter flushes.
\<close>

definition utf8_stdout :: "string stream" where
  "utf8_stdout =
     \<lparr>encode = (\<lambda>x. case utf8 x of None \<Rightarrow> Inl ''UnicodeEncodeError'' | Some b \<Rightarrow> Inr b),
      device = (\<lambda>held b. None),
      exit_flush = (\<lambda>held. None)\<rparr>"

definition latin1_stdout :: "string stream" where
  "latin1_stdout =
     \<lparr>encode = (\<lambda>x. case latin1 x of None \<Rightarrow> Inl ''UnicodeEncodeError'' | Some b \<Rightarrow> Inr b),
      device = (\<lambda>held b. None),
      exit_flush = (\<lambda>held. None)\<rparr>"

definition full_disk_stdout :: "string stream" where
  "full_disk_stdout =
     \<lparr>encode = (\<lambda>x. case utf8 x of None \<Rightarrow> Inl ''UnicodeEncodeError'' | Some b \<Rightarrow> Inr b),
      device = (\<lambda>held b. if b = [] then None else Some (''OSError'', 0)),
      exit_flush = (\<lambda>held. None)\<rparr>"

definition closed_pipe_stdout :: "string stream" where
  "closed_pipe_stdout =
     \<lparr>encode = (\<lambda>x. case utf8 x of None \<Rightarrow> Inl ''UnicodeEncodeError'' | Some b \<Rightarrow> Inr b),
      device = (\<lambda>held b. None),
      exit_flush = (\<lambda>held. if held = [] then None else Some 0)\<rparr>"

section \<open>The ways a run can go\<close>

lemmas run_unfold =
  run_def script_def py_bind_def py_return_def py_raise_def argv_index_def foreign_call_def
  import_Translator_def new_Translator_def call_translate_def stdout_write_def py_print_def

lemma run_import_fails:
  "googletrans host = (Inl e, h1) \<Longrightarrow>
     run googletrans out argv host =
       \<lparr>uncaught = Some (ImportFailure e),
        final = \<lparr>store = h1, events = [], sent = []\<rparr>,
        flush = exit_flush out []\<rparr>"
  by (simp add: run_unfold)

lemma run_short_argv:
  "googletrans host = (Inr Translator, h1) \<Longrightarrow> length argv < 3 \<Longrightarrow>
     run googletrans out argv host =
       \<lparr>uncaught = Some IndexError,
        final = \<lparr>store = h1, events = [], sent = []\<rparr>,
        flush = exit_flush out []\<rparr>"
  by (simp add: run_unfold)

lemma run_constructor_raises:
  "googletrans host = (Inr Translator, h1) \<Longrightarrow> 3 \<le> length argv \<Longrightarrow>
   Translator h1 = (Inl e, h2) \<Longrightarrow>
     run googletrans out argv host =
       \<lparr>uncaught = Some (ClientError e),
        final = \<lparr>store = h2, events = [], sent = []\<rparr>,
        flush = exit_flush out []\<rparr>"
  by (simp add: run_unfold)

lemma run_translate_raises:
  "googletrans host = (Inr Translator, h1) \<Longrightarrow> 3 \<le> length argv \<Longrightarrow>
   Translator h1 = (Inr t, h2) \<Longrightarrow> translate t (argv ! 1) (argv ! 2) h2 = (Inl e, h3) \<Longrightarrow>
     run googletrans out argv host =
       \<lparr>uncaught = Some (ClientError e),
        final = \<lparr>store = h3, events = [ClientCall (argv ! 1) (argv ! 2)], sent = []\<rparr>,
        flush = exit_flush out []\<rparr>"
  by (simp add: run_unfold)

lemma run_text_refused:
  "googletrans host = (Inr Translator, h1) \<Longrightarrow> 3 \<le> length argv \<Longrightarrow>
   Translator h1 = (Inr t, h2) \<Longrightarrow> translate t (argv ! 1) (argv ! 2) h2 = (Inr r, h3) \<Longrightarrow>
   write_outcome out [] (text r) = Inl (e, kept) \<Longrightarrow>
     run googletrans out argv host =
       \<lparr>uncaught = Some (StdoutError e),
        final = \<lparr>store = h3,
                 events = [ClientCall (argv ! 1) (argv ! 2), StdoutWrite (text r)],
                 sent = kept\<rparr>,
        flush = exit_flush out kept\<rparr>"
  by (simp add: run_unfold)

lemma run_newline_refused:
  "googletrans host = (Inr Translator, h1) \<Longrightarrow> 3 \<le> length argv \<Longrightarrow>
   Translator h1 = (Inr t, h2) \<Longrightarrow> translate t (argv ! 1) (argv ! 2) h2 = (Inr r, h3) \<Longrightarrow>
   write_outcome out [] (text r) = Inr b \<Longrightarrow>
   write_outcome out b newline = Inl (e, kept) \<Longrightarrow>
     run googletrans out argv host =
       \<lparr>uncaught = Some (StdoutError e),
        final = \<lparr>store = h3,
                 events = [ClientCall (argv ! 1) (argv ! 2), StdoutWrite (text r),
                           StdoutWrite newline],
                 sent = kept\<rparr>,
        flush = exit_flush out kept\<rparr>"
  by (simp add: run_unfold)

lemma run_printed:
  "googletrans host = (Inr Translator, h1) \<Longrightarrow> 3 \<le> length argv \<Longrightarrow>
   Translator h1 = (Inr t, h2) \<Longrightarrow> translate t (argv ! 1) (argv ! 2) h2 = (Inr r, h3) \<Longrightarrow>
   write_outcome out [] (text r) = Inr b \<Longrightarrow> write_outcome out b newline = Inr b' \<Longrightarrow>
     run googletrans out argv host =
       \<lparr>uncaught = None,
        final = \<lparr>store = h3,
                 events = [ClientCall (argv ! 1) (argv ! 2), StdoutWrite (text r),
                           StdoutWrite newline],
                 sent = b'\<rparr>,
        flush = exit_flush out b'\<rparr>"
  by (simp add: run_unfold)

text \<open>All of them at once: what a run is, for every library, stream, argument vector and host.\<close>

lemma run_eq:
  "run googletrans out argv host =
     (case googletrans host of
        (Inl e, h1) \<Rightarrow>
          \<lparr>uncaught = Some (ImportFailure e),
           final = \<lparr>store = h1, events = [], sent = []\<rparr>, flush = exit_flush out []\<rparr>
      | (Inr Translator, h1) \<Rightarrow>
          if length argv < 3
          then \<lparr>uncaught = Some IndexError,
                final = \<lparr>store = h1, events = [], sent = []\<rparr>, flush = exit_flush out []\<rparr>
          else (case Translator h1 of
            (Inl e, h2) \<Rightarrow>
              \<lparr>uncaught = Some (ClientError e),
               final = \<lparr>store = h2, events = [], sent = []\<rparr>, flush = exit_flush out []\<rparr>
          | (Inr t, h2) \<Rightarrow>
              (case translate t (argv ! 1) (argv ! 2) h2 of
                 (Inl e, h3) \<Rightarrow>
                   \<lparr>uncaught = Some (ClientError e),
                    final = \<lparr>store = h3, events = [ClientCall (argv ! 1) (argv ! 2)], sent = []\<rparr>,
                    flush = exit_flush out []\<rparr>
               | (Inr r, h3) \<Rightarrow>
                   (case write_outcome out [] (text r) of
                      Inl (e, kept) \<Rightarrow>
                        \<lparr>uncaught = Some (StdoutError e),
                         final = \<lparr>store = h3,
                           events = [ClientCall (argv ! 1) (argv ! 2), StdoutWrite (text r)],
                           sent = kept\<rparr>,
                         flush = exit_flush out kept\<rparr>
                    | Inr b \<Rightarrow>
                        (case write_outcome out b newline of
                           Inl (e, kept) \<Rightarrow>
                             \<lparr>uncaught = Some (StdoutError e),
                              final = \<lparr>store = h3,
                                events = [ClientCall (argv ! 1) (argv ! 2), StdoutWrite (text r),
                                          StdoutWrite newline],
                                sent = kept\<rparr>,
                              flush = exit_flush out kept\<rparr>
                         | Inr b' \<Rightarrow>
                             \<lparr>uncaught = None,
                              final = \<lparr>store = h3,
                                events = [ClientCall (argv ! 1) (argv ! 2), StdoutWrite (text r),
                                          StdoutWrite newline],
                                sent = b'\<rparr>,
                              flush = exit_flush out b'\<rparr>)))))"
  by (simp add: run_import_fails run_short_argv run_constructor_raises run_translate_raises
        run_text_refused run_newline_refused run_printed split: prod.split sum.split)

lemmas run_splits = prod.split sum.split

lemmas observers = exit_status_def trace_def stdout_def delivered_def

section \<open>The properties of the specification\<close>

text \<open>
  C1. Invoked with two positional arguments \<open>text\<close> and \<open>lang\<close>, if the import, the
  construction of the client and the translation call succeed and standard output takes
  both writes of \<open>print\<close> and the flush at exit, then the script has written to standard
  output exactly the \<open>text\<close> attribute of the response and then the line terminator,
  as they are, standard output holds the stream's encoding of the one followed by that
  of the other, and nothing else, and the exit status is 0.
\<close>

theorem C1_prints_translated_text:
  "googletrans host = (Inr Translator, ha) \<Longrightarrow> Translator ha = (Inr t, hb) \<Longrightarrow>
   translate t tx lang hb = (Inr r, hc) \<Longrightarrow>
   encode out (text r) = Inr b \<Longrightarrow> device out [] b = None \<Longrightarrow>
   encode out newline = Inr nl \<Longrightarrow> device out b nl = None \<Longrightarrow>
   exit_flush out (b @ nl) = None \<Longrightarrow>
     stdout_writes (trace (run googletrans out [prog, tx, lang] host)) = [text r, newline] \<and>
     stdout (run googletrans out [prog, tx, lang] host) = b @ nl \<and>
     exit_status (run googletrans out [prog, tx, lang] host) = 0"
  by (simp add: run_eq observers write_outcome_def)

theorem C1_prints_translated_text_witness:
  "demo_googletrans bare_host
     = (Inr demo_class,
        bare_host\<lparr>files := (files bare_host)(''googletrans/__pycache__/client.pyc'' \<mapsto> ''bytecode'')\<rparr>) \<and>
   encode utf8_stdout (ascii ''hola'') = Inr [104, 111, 108, 97] \<and>
   device utf8_stdout [] [104, 111, 108, 97] = None \<and>
   encode utf8_stdout newline = Inr [10] \<and>
   device utf8_stdout [104, 111, 108, 97] [10] = None \<and>
   exit_flush utf8_stdout ([104, 111, 108, 97] @ [10]) = None \<and>
   stdout_writes (trace (run demo_googletrans utf8_stdout
       [ascii ''translate.py'', ascii ''hello'', ascii ''es''] bare_host))
     = [ascii ''hola'', newline] \<and>
   stdout (run demo_googletrans utf8_stdout
       [ascii ''translate.py'', ascii ''hello'', ascii ''es''] bare_host)
     = [104, 111, 108, 97, 10]"
proof -
  let ?h = "bare_host\<lparr>files := (files bare_host)(''googletrans/__pycache__/client.pyc'' \<mapsto> ''bytecode'')\<rparr>"
  have i: "demo_googletrans bare_host = (Inr demo_class, ?h)"
    by (simp add: demo_googletrans_def)
  have c: "demo_class ?h = (Inr demo_translator, ?h)"
    by (simp add: demo_class_def)
  have t: "translate demo_translator (ascii ''hello'') (ascii ''es'') ?h
             = (Inr \<lparr>text = ascii ''hola'', \<dots> = ''es''\<rparr>, ?h)"
    by (simp add: demo_translator_def)
  have e1: "encode utf8_stdout (text \<lparr>text = ascii ''hola'', \<dots> = ''es''\<rparr>) = Inr [104, 111, 108, 97]"
    by (simp add: utf8_stdout_def ascii_def utf8_char_def)
  have d1: "device utf8_stdout [] [104, 111, 108, 97] = None"
    by (simp add: utf8_stdout_def)
  have e2: "encode utf8_stdout newline = Inr [10]"
    by (simp add: utf8_stdout_def newline_def utf8_char_def)
  have d2: "device utf8_stdout [104, 111, 108, 97] [10] = None"
    by (simp add: utf8_stdout_def)
  have fl: "exit_flush utf8_stdout ([104, 111, 108, 97] @ [10]) = None"
    by (simp add: utf8_stdout_def)
  from C1_prints_translated_text
         [where googletrans = demo_googletrans and host = bare_host and Translator = demo_class
            and ha = "?h" and t = demo_translator and hb = "?h" and tx = "ascii ''hello''"
            and lang = "ascii ''es''" and r = "\<lparr>text = ascii ''hola'', \<dots> = ''es''\<rparr>"
            and hc = "?h" and out = utf8_stdout and b = "[104, 111, 108, 97]" and nl = "[10]"
            and prog = "ascii ''translate.py''",
          OF i c t e1 d1 e2 d2 fl]
       i e1 d1 e2 d2 fl
  show ?thesis by simp
qed

text \<open>
  C1, counterexample. The condition on standard output cannot be dropped: an argument
  that is not valid UTF-8 reaches the script as a surrogate code point, the client returns
  it as the translation, and a UTF-8 standard output refuses it. The call has succeeded,
  yet nothing is on standard output and the line terminator was never written.
\<close>

theorem C1_unencodable_text_not_printed:
  "fst (translate demo_translator [0xDCFF] (ascii ''es'') bare_host)
     = Inr \<lparr>text = [0xDCFF], \<dots> = ''es''\<rparr> \<and>
   stdout (run demo_googletrans utf8_stdout
       [ascii ''translate.py'', [0xDCFF], ascii ''es''] bare_host) = [] \<and>
   stdout_writes (trace (run demo_googletrans utf8_stdout
       [ascii ''translate.py'', [0xDCFF], ascii ''es''] bare_host)) \<noteq> [[0xDCFF], newline] \<and>
   uncaught (run demo_googletrans utf8_stdout
       [ascii ''translate.py'', [0xDCFF], ascii ''es''] bare_host)
     = Some (StdoutError ''UnicodeEncodeError'')"
  by (simp add: run_eq observers write_outcome_def demo_googletrans_def demo_class_def
        demo_translator_def utf8_stdout_def utf8_char_def ascii_def newline_def)

text \<open>
  C2. Invoked with fewer than two positional arguments (so \<open>sys.argv\<close> has fewer than
  three elements), the process ends with a non-zero exit status and the script has issued
  no call: not to the client, whose constructor has not run either (the store is as the
  import left it), and not to standard output. The exit is caused by an \<open>IndexError\<close>
  whenever the import on line 2 succeeded, and by the exception of the import otherwise.
\<close>

theorem C2_missing_arguments:
  "length argv < 3 \<Longrightarrow>
     exit_status (run googletrans out argv host) \<noteq> 0 \<and>
     client_calls (trace (run googletrans out argv host)) = [] \<and>
     trace (run googletrans out argv host) = [] \<and>
     store (final (run googletrans out argv host)) = snd (googletrans host) \<and>
     uncaught (run googletrans out argv host)
       = (case fst (googletrans host) of
            Inl e \<Rightarrow> Some (ImportFailure e)
          | Inr Translator \<Rightarrow> Some IndexError)"
  by (simp add: run_eq observers split: run_splits option.split)

theorem C2_missing_arguments_witness:
  "length [ascii ''translate.py'', ascii ''hello''] < 3 \<and>
   uncaught (run demo_googletrans utf8_stdout [ascii ''translate.py'', ascii ''hello''] bare_host)
     = Some IndexError \<and>
   exit_status (run demo_googletrans utf8_stdout [ascii ''translate.py'', ascii ''hello''] bare_host)
     \<noteq> 0 \<and>
   client_calls (trace (run demo_googletrans utf8_stdout
       [ascii ''translate.py'', ascii ''hello''] bare_host)) = []"
proof -
  have h: "length [ascii ''translate.py'', ascii ''hello''] < 3" by simp
  from C2_missing_arguments
         [where googletrans = demo_googletrans and out = utf8_stdout and host = bare_host, OF h] h
  show ?thesis by (simp add: demo_googletrans_def)
qed

text \<open>
  C2, counterexample. The index error is not the cause in every case: when the import
  on line 2 raises, the arguments are never read.
\<close>

theorem C2_import_error_comes_first:
  "length [ascii ''translate.py'', ascii ''hello''] < 3 \<and>
   uncaught (run broken_googletrans utf8_stdout [ascii ''translate.py'', ascii ''hello''] bare_host)
     \<noteq> Some IndexError \<and>
   uncaught (run broken_googletrans utf8_stdout [ascii ''translate.py'', ascii ''hello''] bare_host)
     = Some (ImportFailure ''ImportError'')"
  by (simp add: run_eq broken_googletrans_def)

text \<open>
  C3. With both arguments present, an exception raised by the library, by the import, by
  the constructor of the client or by its translate method, whatever it is, reaches the top
  level as it was raised and the exit status is non-zero; the script does not retry:
  translate has been called at most once, and exactly once when it is the method that
  raised. When the call returns a response, the exit status is 0 provided standard output
  accepts the two writes of \<open>print\<close> and the flush at exit; a write that raises reaches the
  top level too, with a non-zero exit status, and a failed flush gives status 120.
\<close>

theorem C3_client_errors_propagate:
  "3 \<le> length argv \<Longrightarrow>
     (case googletrans host of
        (Inl e, ha) \<Rightarrow>
          uncaught (run googletrans out argv host) = Some (ImportFailure e) \<and>
          exit_status (run googletrans out argv host) \<noteq> 0 \<and>
          client_calls (trace (run googletrans out argv host)) = []
      | (Inr Translator, ha) \<Rightarrow>
          (case Translator ha of
             (Inl e, hb) \<Rightarrow>
               uncaught (run googletrans out argv host) = Some (ClientError e) \<and>
               exit_status (run googletrans out argv host) \<noteq> 0 \<and>
               client_calls (trace (run googletrans out argv host)) = []
           | (Inr t, hb) \<Rightarrow>
               (case translate t (argv ! 1) (argv ! 2) hb of
                  (Inl e, hc) \<Rightarrow>
                    uncaught (run googletrans out argv host) = Some (ClientError e) \<and>
                    exit_status (run googletrans out argv host) \<noteq> 0 \<and>
                    client_calls (trace (run googletrans out argv host)) = [(argv ! 1, argv ! 2)]
                | (Inr r, hc) \<Rightarrow>
                    client_calls (trace (run googletrans out argv host)) = [(argv ! 1, argv ! 2)] \<and>
                    (case write_outcome out [] (text r) of
                       Inl (e, kept) \<Rightarrow>
                         uncaught (run googletrans out argv host) = Some (StdoutError e) \<and>
                         exit_status (run googletrans out argv host) \<noteq> 0
                     | Inr b \<Rightarrow>
                         (case write_outcome out b newline of
                            Inl (e, kept) \<Rightarrow>
                              uncaught (run googletrans out argv host) = Some (StdoutError e) \<and>
                              exit_status (run googletrans out argv host) \<noteq> 0
                          | Inr b' \<Rightarrow>
                              uncaught (run googletrans out argv host) = None \<and>
                              exit_status (run googletrans out argv host)
                                = (case exit_flush out b' of None \<Rightarrow> 0 | Some n \<Rightarrow> 120))))))"
  by (simp add: run_eq observers split: run_splits option.split)

theorem C3_client_errors_propagate_witness:
  "3 \<le> length [ascii ''translate.py'', ascii ''hello'', ascii ''xx''] \<and>
   uncaught (run demo_googletrans utf8_stdout
       [ascii ''translate.py'', ascii ''hello'', ascii ''xx''] bare_host)
     = Some (ClientError ''ValueError'') \<and>
   exit_status (run demo_googletrans utf8_stdout
       [ascii ''translate.py'', ascii ''hello'', ascii ''xx''] bare_host) \<noteq> 0 \<and>
   client_calls (trace (run demo_googletrans utf8_stdout
       [ascii ''translate.py'', ascii ''hello'', ascii ''xx''] bare_host))
     = [(ascii ''hello'', ascii ''xx'')] \<and>
   3 \<le> length [ascii ''translate.py'', ascii ''hello'', ascii ''fr''] \<and>
   exit_status (run demo_googletrans utf8_stdout
       [ascii ''translate.py'', ascii ''hello'', ascii ''fr''] bare_host) = 0"
proof -
  have h: "3 \<le> length [ascii ''translate.py'', ascii ''hello'', ascii ''xx'']"
    and k: "3 \<le> length [ascii ''translate.py'', ascii ''hello'', ascii ''fr'']" by simp_all
  from C3_client_errors_propagate
         [where googletrans = demo_googletrans and out = utf8_stdout and host = bare_host, OF h]
       C3_client_errors_propagate
         [where googletrans = demo_googletrans and out = utf8_stdout and host = bare_host, OF k]
  show ?thesis
    by (simp add: demo_googletrans_def demo_class_def demo_translator_def ascii_def
          write_outcome_def utf8_stdout_def utf8_char_def newline_def)
qed

text \<open>
  C3, counterexample. A successful call does not make the exit status 0 by itself: the
  call returns the translation, and either the disk behind standard output is full, the
  write raises and the exit status is 1, or standard output is a pipe without a reader,
  the flush at exit fails and the exit status is 120.
\<close>

theorem C3_successful_call_nonzero_exit:
  "fst (translate demo_translator (ascii ''hello'') (ascii ''es'') bare_host)
     = Inr \<lparr>text = ascii ''hola'', \<dots> = ''es''\<rparr> \<and>
   exit_status (run demo_googletrans full_disk_stdout
       [ascii ''translate.py'', ascii ''hello'', ascii ''es''] bare_host) = 1 \<and>
   uncaught (run demo_googletrans full_disk_stdout
       [ascii ''translate.py'', ascii ''hello'', ascii ''es''] bare_host)
     = Some (StdoutError ''OSError'') \<and>
   exit_status (run demo_googletrans closed_pipe_stdout
       [ascii ''translate.py'', ascii ''hello'', ascii ''es''] bare_host) = 120 \<and>
   uncaught (run demo_googletrans closed_pipe_stdout
       [ascii ''translate.py'', ascii ''hello'', ascii ''es''] bare_host) = None"
  by (simp add: run_eq observers write_outcome_def demo_googletrans_def demo_class_def
        demo_translator_def full_disk_stdout_def closed_pipe_stdout_def utf8_char_def
        ascii_def newline_def)

text \<open>
  C4. With at least two positional arguments, \<open>sys.argv[1]\<close> is the text and \<open>sys.argv[2]\<close>
  the destination language, and both reach the client as they were given: no call is made
  when the import or the constructor raises, and otherwise the one call made is
  \<open>translate\<close> applied to exactly these two values. The run is what that application
  makes it: the store at exit is the store it left, its exception is the exception of the
  run, and its response is what the script then hands to standard output.
\<close>

theorem C4_arguments_passed_unmodified:
  "3 \<le> length argv \<Longrightarrow>
     (case googletrans host of
        (Inl e, ha) \<Rightarrow> client_calls (trace (run googletrans out argv host)) = []
      | (Inr Translator, ha) \<Rightarrow>
          (case Translator ha of
             (Inl e, hb) \<Rightarrow> client_calls (trace (run googletrans out argv host)) = []
           | (Inr t, hb) \<Rightarrow>
               client_calls (trace (run googletrans out argv host)) = [(argv ! 1, argv ! 2)] \<and>
               store (final (run googletrans out argv host))
                 = snd (translate t (argv ! 1) (argv ! 2) hb) \<and>
               (case fst (translate t (argv ! 1) (argv ! 2) hb) of
                  Inl e \<Rightarrow>
                    uncaught (run googletrans out argv host) = Some (ClientError e) \<and>
                    stdout_writes (trace (run googletrans out argv host)) = []
                | Inr r \<Rightarrow>
                    take 1 (stdout_writes (trace (run googletrans out argv host))) = [text r])))"
  by (simp add: run_eq observers split: run_splits option.split)

theorem C4_arguments_passed_unmodified_witness:
  "3 \<le> length [ascii ''translate.py'', ascii ''Hello, World '', ascii ''es'', ascii ''-v''] \<and>
   client_calls (trace (run demo_googletrans utf8_stdout
       [ascii ''translate.py'', ascii ''Hello, World '', ascii ''es'', ascii ''-v''] bare_host))
     = [(ascii ''Hello, World '', ascii ''es'')] \<and>
   take 1 (stdout_writes (trace (run demo_googletrans utf8_stdout
       [ascii ''translate.py'', ascii ''Hello, World '', ascii ''es'', ascii ''-v''] bare_host)))
     = [ascii ''Hello, World '']"
proof -
  have h: "3 \<le> length [ascii ''translate.py'', ascii ''Hello, World '', ascii ''es'', ascii ''-v'']"
    by simp
  from C4_arguments_passed_unmodified
         [where googletrans = demo_googletrans and out = utf8_stdout and host = bare_host, OF h] h
  show ?thesis
    by (simp add: demo_googletrans_def demo_class_def demo_translator_def ascii_def)
qed

text \<open>
  C5. The script applies no transformation of its own: what it hands to standard output
  is the \<open>text\<close> attribute of the response, as it is, and then the line terminator. What
  standard output holds at exit is what the stream makes of these two writes and of the
  flush at exit: it is determined by that text and by the stream. So two
  runs on the same stream, with any libraries, arguments and stores, whose translate
  calls return responses with the same \<open>text\<close>, whatever else the two responses carry,
  hand the same strings to standard output, leave the same bytes on it and end alike.
\<close>

theorem C5_output_determined_by_response_text:
  "3 \<le> length argv \<Longrightarrow> 3 \<le> length argv' \<Longrightarrow>
   googletrans host = (Inr Translator, ha) \<Longrightarrow> Translator ha = (Inr t, hb) \<Longrightarrow>
   translate t (argv ! 1) (argv ! 2) hb = (Inr r, hc) \<Longrightarrow>
   googletrans' host' = (Inr Translator', ha') \<Longrightarrow> Translator' ha' = (Inr t', hb') \<Longrightarrow>
   translate t' (argv' ! 1) (argv' ! 2) hb' = (Inr r', hc') \<Longrightarrow>
   text r = text r' \<Longrightarrow>
     take 1 (stdout_writes (trace (run googletrans out argv host))) = [text r] \<and>
     stdout (run googletrans out argv host)
       = delivered out
           (case write_outcome out [] (text r) of
              Inl (e, kept) \<Rightarrow> kept
            | Inr b \<Rightarrow>
                (case write_outcome out b newline of Inl (e, kept) \<Rightarrow> kept | Inr b' \<Rightarrow> b')) \<and>
     stdout_writes (trace (run googletrans out argv host))
       = stdout_writes (trace (run googletrans' out argv' host')) \<and>
     stdout (run googletrans out argv host) = stdout (run googletrans' out argv' host') \<and>
     uncaught (run googletrans out argv host) = uncaught (run googletrans' out argv' host') \<and>
     exit_status (run googletrans out argv host) = exit_status (run googletrans' out argv' host')"
  by (simp add: run_eq observers split: run_splits option.split)

theorem C5_output_determined_by_response_text_witness:
  "3 \<le> length [ascii ''translate.py'', ascii ''adios'', ascii ''es''] \<and>
   3 \<le> length [ascii ''t.py'', ascii ''adios'', ascii ''fr'', ascii ''x''] \<and>
   fst (translate demo_translator (ascii ''adios'') (ascii ''es'') bare_host)
     = Inr \<lparr>text = ascii ''adios'', \<dots> = ''es''\<rparr> \<and>
   fst (translate demo_translator (ascii ''adios'') (ascii ''fr'') bare_host)
     = Inr \<lparr>text = ascii ''adios'', \<dots> = ''fr''\<rparr> \<and>
   take 1 (stdout_writes (trace (run demo_googletrans utf8_stdout
       [ascii ''translate.py'', ascii ''adios'', ascii ''es''] bare_host))) = [ascii ''adios''] \<and>
   stdout (run demo_googletrans utf8_stdout
       [ascii ''translate.py'', ascii ''adios'', ascii ''es''] bare_host)
     = stdout (run demo_googletrans utf8_stdout
       [ascii ''t.py'', ascii ''adios'', ascii ''fr'', ascii ''x''] bare_host)"
proof -
  let ?h = "bare_host\<lparr>files := (files bare_host)(''googletrans/__pycache__/client.pyc'' \<mapsto> ''bytecode'')\<rparr>"
  let ?a = "[ascii ''translate.py'', ascii ''adios'', ascii ''es'']"
  let ?a' = "[ascii ''t.py'', ascii ''adios'', ascii ''fr'', ascii ''x'']"
  have a: "3 \<le> length ?a" and a': "3 \<le> length ?a'" by simp_all
  have i: "demo_googletrans bare_host = (Inr demo_class, ?h)"
    by (simp add: demo_googletrans_def)
  have c: "demo_class ?h = (Inr demo_translator, ?h)"
    by (simp add: demo_class_def)
  have t: "translate demo_translator (?a ! 1) (?a ! 2) ?h
             = (Inr \<lparr>text = ascii ''adios'', \<dots> = ''es''\<rparr>, ?h)"
    by (simp add: demo_translator_def ascii_def)
  have t': "translate demo_translator (?a' ! 1) (?a' ! 2) ?h
             = (Inr \<lparr>text = ascii ''adios'', \<dots> = ''fr''\<rparr>, ?h)"
    by (simp add: demo_translator_def ascii_def)
  have e: "text \<lparr>text = ascii ''adios'', \<dots> = ''es''\<rparr> = text \<lparr>text = ascii ''adios'', \<dots> = ''fr''\<rparr>"
    by simp
  have f: "fst (translate demo_translator (ascii ''adios'') (ascii ''es'') bare_host)
             = Inr \<lparr>text = ascii ''adios'', \<dots> = ''es''\<rparr>"
    and f': "fst (translate demo_translator (ascii ''adios'') (ascii ''fr'') bare_host)
             = Inr \<lparr>text = ascii ''adios'', \<dots> = ''fr''\<rparr>"
    by (simp_all add: demo_translator_def ascii_def)
  note w = C5_output_determined_by_response_text
         [where googletrans = demo_googletrans and host = bare_host and Translator = demo_class
            and ha = "?h" and t = demo_translator and hb = "?h" and argv = "?a"
            and r = "\<lparr>text = ascii ''adios'', \<dots> = ''es''\<rparr>" and hc = "?h"
            and googletrans' = demo_googletrans and host' = bare_host
            and Translator' = demo_class and ha' = "?h" and t' = demo_translator
            and hb' = "?h" and argv' = "?a'"
            and r' = "\<lparr>text = ascii ''adios'', \<dots> = ''fr''\<rparr>" and hc' = "?h"
            and out = utf8_stdout,
          OF a a' i c t i c t' e]
  from w have first: "take 1 (stdout_writes (trace (run demo_googletrans utf8_stdout ?a bare_host)))
                        = [text \<lparr>text = ascii ''adios'', \<dots> = ''es''\<rparr>]"
    by (rule conjunct1)
  from w have same: "stdout (run demo_googletrans utf8_stdout ?a bare_host)
                       = stdout (run demo_googletrans utf8_stdout ?a' bare_host)"
    by blast
  from first same a a' f f' show ?thesis by simp
qed

text \<open>
  C5, counterexample. The two runs must share the stream: the bytes depend on its
  encoding. The same response, the one letter U+00E9, is printed as two bytes and a
  newline on a UTF-8 standard output and as one byte and a newline on a Latin-1 one.
\<close>

theorem C5_same_response_different_output:
  "fst (translate demo_translator [0xE9] (ascii ''es'') bare_host)
     = Inr \<lparr>text = [0xE9], \<dots> = ''es''\<rparr> \<and>
   stdout (run demo_googletrans utf8_stdout
       [ascii ''translate.py'', [0xE9], ascii ''es''] bare_host) = [0xC3, 0xA9, 0x0A] \<and>
   stdout (run demo_googletrans latin1_stdout
       [ascii ''translate.py'', [0xE9], ascii ''es''] bare_host) = [0xE9, 0x0A] \<and>
   stdout (run demo_googletrans utf8_stdout
       [ascii ''translate.py'', [0xE9], ascii ''es''] bare_host)
     \<noteq> stdout (run demo_googletrans latin1_stdout
       [ascii ''translate.py'', [0xE9], ascii ''es''] bare_host)"
  by (simp add: run_eq observers write_outcome_def demo_googletrans_def demo_class_def
        demo_translator_def utf8_stdout_def latin1_stdout_def utf8_char_def ascii_def newline_def)

text \<open>
  C6. The script validates nothing locally: for every text, the empty string included,
  and every language code, recognised or not, a run with a client object at hand calls
  the client with exactly that text and that code; and the run fails for its input only
  if the client says so, through the exception that translate raises at that text and
  that code. When translate returns a response, an exception can only come from the
  write of that response to standard output.
\<close>

theorem C6_no_local_validation:
  "googletrans host = (Inr Translator, ha) \<Longrightarrow> Translator ha = (Inr t, hb) \<Longrightarrow>
     client_calls (trace (run googletrans out [prog, tx, lang] host)) = [(tx, lang)] \<and>
     uncaught (run googletrans out [prog, tx, lang] host)
       = (case fst (translate t tx lang hb) of
            Inl e \<Rightarrow> Some (ClientError e)
          | Inr r \<Rightarrow>
              (case write_outcome out [] (text r) of
                 Inl (e, kept) \<Rightarrow> Some (StdoutError e)
               | Inr b \<Rightarrow>
                   (case write_outcome out b newline of
                      Inl (e, kept) \<Rightarrow> Some (StdoutError e)
                    | Inr b' \<Rightarrow> None))) \<and>
     client_calls (trace (run googletrans out [prog, [], lang] host)) = [([], lang)]"
  by (simp add: run_eq observers split: run_splits option.split)

theorem C6_no_local_validation_witness:
  "demo_googletrans bare_host
     = (Inr demo_class,
        bare_host\<lparr>files := (files bare_host)(''googletrans/__pycache__/client.pyc'' \<mapsto> ''bytecode'')\<rparr>) \<and>
   client_calls (trace (run demo_googletrans utf8_stdout
       [ascii ''translate.py'', [], ascii ''klingon''] bare_host)) = [([], ascii ''klingon'')] \<and>
   uncaught (run demo_googletrans utf8_stdout
       [ascii ''translate.py'', [], ascii ''klingon''] bare_host)
     = Some (ClientError ''ValueError'')"
proof -
  let ?h = "bare_host\<lparr>files := (files bare_host)(''googletrans/__pycache__/client.pyc'' \<mapsto> ''bytecode'')\<rparr>"
  have i: "demo_googletrans bare_host = (Inr demo_class, ?h)"
    by (simp add: demo_googletrans_def)
  have c: "demo_class ?h = (Inr demo_translator, ?h)"
    by (simp add: demo_class_def)
  from C6_no_local_validation
         [where googletrans = demo_googletrans and host = bare_host and Translator = demo_class
            and ha = "?h" and t = demo_translator and hb = "?h" and out = utf8_stdout
            and prog = "ascii ''translate.py''" and tx = "[]" and lang = "ascii ''klingon''",
          OF i c] i
  show ?thesis by (simp add: demo_translator_def ascii_def)
qed

text \<open>
  C7. Every run is a prefix of the one sequence: import, read the arguments, call the
  client, print. Its trace is empty, or the client call alone, or the client call followed
  by the writes of the one \<open>print\<close>, its string and then the line terminator; so the
  client is called at most once, and a write to standard output is preceded by the call.
\<close>

theorem C7_single_linear_sequence:
  "call_then_print (trace (run googletrans out argv host)) \<and>
   length (client_calls (trace (run googletrans out argv host))) \<le> 1"
  by (simp add: run_eq observers split: run_splits option.split)

text \<open>
  C8. A run calls the client at most once and executes \<open>print\<close> at most once, which is at
  most two writes to standard output. The script itself writes no file and changes no
  environment variable: the store at exit is the store of the host as the library left
  it, through the import, then the constructor (if the arguments were there), then the
  translate call at the two arguments, and through nothing else.
\<close>

theorem C8_side_effects_bounded:
  "length (client_calls (trace (run googletrans out argv host))) \<le> 1 \<and>
   length (stdout_writes (trace (run googletrans out argv host))) \<le> 2 \<and>
   store (final (run googletrans out argv host))
     = (case googletrans host of
          (Inl e, ha) \<Rightarrow> ha
        | (Inr Translator, ha) \<Rightarrow>
            if length argv < 3 then ha
            else (case Translator ha of
              (Inl e, hb) \<Rightarrow> hb
            | (Inr t, hb) \<Rightarrow> snd (translate t (argv ! 1) (argv ! 2) hb)))"
proof -
  have calls: "length (client_calls (trace (run googletrans out argv host))) \<le> 1"
    by (simp add: run_eq observers split: run_splits option.split)
  have writes: "length (stdout_writes (trace (run googletrans out argv host))) \<le> 2"
    by (simp add: run_eq observers split: run_splits option.split)
  have kept: "store (final (run googletrans out argv host))
     = (case googletrans host of
          (Inl e, ha) \<Rightarrow> ha
        | (Inr Translator, ha) \<Rightarrow>
            if length argv < 3 then ha
            else (case Translator ha of
              (Inl e, hb) \<Rightarrow> hb
            | (Inr t, hb) \<Rightarrow> snd (translate t (argv ! 1) (argv ! 2) hb)))"
    by (simp add: run_eq split: run_splits)
  from calls writes kept show ?thesis by simp
qed

text \<open>
  C8, counterexample. A run can persist something and write twice: on a host where the
  package has no bytecode cache yet it leaves a cache file behind, written during the
  import on line 2, and its \<open>print\<close> is two writes.
\<close>

theorem C8_import_leaves_cache_file:
  "files bare_host ''googletrans/__pycache__/client.pyc'' = None \<and>
   files (store (final (run demo_googletrans utf8_stdout
       [ascii ''translate.py'', ascii ''hello'', ascii ''es''] bare_host)))
     ''googletrans/__pycache__/client.pyc'' = Some ''bytecode'' \<and>
   store (final (run demo_googletrans utf8_stdout
       [ascii ''translate.py'', ascii ''hello'', ascii ''es''] bare_host)) \<noteq> bare_host \<and>
   length (stdout_writes (trace (run demo_googletrans utf8_stdout
       [ascii ''translate.py'', ascii ''hello'', ascii ''es''] bare_host))) = 2"
proof -
  let ?out = "run demo_googletrans utf8_stdout
       [ascii ''translate.py'', ascii ''hello'', ascii ''es''] bare_host"
  have before: "files bare_host ''googletrans/__pycache__/client.pyc'' = None"
    by (simp add: bare_host_def)
  have after: "files (store (final ?out)) ''googletrans/__pycache__/client.pyc'' = Some ''bytecode''"
    by (simp add: run_eq write_outcome_def demo_googletrans_def demo_class_def
          demo_translator_def utf8_stdout_def utf8_char_def ascii_def newline_def)
  have two: "length (stdout_writes (trace ?out)) = 2"
    by (simp add: run_eq observers write_outcome_def demo_googletrans_def demo_class_def
          demo_translator_def utf8_stdout_def utf8_char_def ascii_def newline_def)
  from before after have "store (final ?out) \<noteq> bare_host" by auto
  with before after two show ?thesis by simp
qed



text \<open>
  C10. Arguments after the second are ignored: a run with further arguments appended is
  the same run, with the same exception or none, the same events, the same store and the
  same bytes on standard output, hence the same output and the same exit status.
\<close>

theorem C10_extra_arguments_ignored:
  "run googletrans out (prog # tx # lang # extra) host = run googletrans out [prog, tx, lang] host \<and>
   stdout (run googletrans out (prog # tx # lang # extra) host)
     = stdout (run googletrans out [prog, tx, lang] host) \<and>
   exit_status (run googletrans out (prog # tx # lang # extra) host)
     = exit_status (run googletrans out [prog, tx, lang] host)"
proof -
  have same: "run googletrans out (prog # tx # lang # extra) host
                = run googletrans out [prog, tx, lang] host"
    by (simp add: run_eq split: run_splits)
  then show ?thesis by simp
qed

end
